theory Spec2Isabelle
  imports Main "HOL-Library.AList"
begin

section \<open>The sidebar index of the \<open>ink_lang\<close> documentation\<close>

text \<open>
  The file \<^verbatim>\<open>target/doc/ink_lang/sidebar-items.js\<close> is one JavaScript statement,
  \<^verbatim>\<open>initSidebarItems({"attr":[["contract",""]],"enum":[...],...});\<close>
  a call of the global function \<open>initSidebarItems\<close> on one object literal. The literal
  is built from three constructs only: string literals, array literals and an object
  literal with string keys.
\<close>

subsection \<open>The literal\<close>

text \<open>
  The three constructs of the literal. An object literal keeps its properties as a list
  of key and value in the order they are written.
\<close>

datatype js_literal =
    Str string
  | Arr "js_literal list"
  | Obj "(string \<times> js_literal) list"

text \<open>The argument of the call, transcribed from the file, in the file's order.\<close>

definition sidebar_items :: js_literal where
  "sidebar_items = Obj [
    (''attr'', Arr [
       Arr [Str ''contract'',
            Str '''']]),
    (''enum'', Arr [
       Arr [Str ''DispatchError'',
            Str ''A dispatch error.''],
       Arr [Str ''DispatchMode'',
            Str ''The contract dispatch mode.'']]),
    (''struct'', Arr [
       Arr [Str ''Contract'',
            Str ''The contract definition.''],
       Arr [Str ''ContractBuilder'',
            Str ''Simplifies declaration of a smart contract.''],
       Arr [Str ''DispatchList'',
            Str ''A list of dispatchers.''],
       Arr [Str ''DispatchRetCode'',
            Str ''A return code indicating success or error in a compact form.''],
       Arr [Str ''Dispatcher'',
            Str ''Dispatcher for storage preserving messages.''],
       Arr [Str ''DispatcherMut'',
            Str ''Dispatcher for potentially storage mutating messages and constructors.''],
       Arr [Str ''EnvAccess'',
            Str ''A typed accessor to the environment.''],
       Arr [Str ''UnreachableDispatcher'',
            Str ''A dispatcher that shall never dispatch.'']]),
    (''trait'', Arr [
       Arr [Str ''Dispatch'',
            Str ''Types implementing this trait can handle contract calls.''],
       Arr [Str ''DispatchUsingMode'',
            Str ''Trait implemented by contracts themselves in order to provide a clean interface for the C-ABI specified `call` and `create` functions to forward calls to.''],
       Arr [Str ''Env'',
            Str ''Allows to directly access the environment mutably.''],
       Arr [Str ''FnInput'',
            Str ''Dispatchable functions that have inputs.''],
       Arr [Str ''FnOutput'',
            Str ''Dispatchable functions that have an output.''],
       Arr [Str ''FnSelector'',
            Str ''The selector of dispatchable functions.''],
       Arr [Str ''ForwardCall'',
            Str ''Implemented by contracts that are compiled as dependencies.''],
       Arr [Str ''ForwardCallMut'',
            Str ''Implemented by contracts that are compiled as dependencies.''],
       Arr [Str ''GenerateAbi'',
            Str ''Types implementing this trait can generate their metadata.''],
       Arr [Str ''InstantiateTestable'',
            Str ''Trait implemented by contracts to make them testable.''],
       Arr [Str ''Message'',
            Str ''Types implementing this are messages that may only read from storage.''],
       Arr [Str ''PushDispatcher'',
            Str ''Types able to push another dispatcher to themselves.''],
       Arr [Str ''Storage'',
            Str ''Types implementing this trait are storage structs.''],
       Arr [Str ''ToAccountId'',
            Str ''Implemented by contracts that are compiled as dependencies.'']]),
    (''type'', Arr [
       Arr [Str ''DispatchResult'',
            Str ''A dispatch result.''],
       Arr [Str ''DispatchableFn'',
            Str ''A function with the signature able to handle storage preserving calls of messages or constructors.''],
       Arr [Str ''DispatchableFnMut'',
            Str ''A function with the signature able to handle potentially storage mutating calls of messages or constructors.''],
       Arr [Str ''EmptyDispatchList'',
            Str ''A simple type definition to view the single unreachable dispatcher as list.'']])]"

subsection \<open>Reading the table\<close>

text \<open>
  The statements about the table read it the way its consumer does: the object's
  properties are the categories, a category's value is an array of entries, and an entry
  is an array \<open>[identifier, description]\<close> of two strings. The readers below return
  \<open>None\<close> on anything of another shape, so a statement about the decoded table also
  says that the literal has this shape.
\<close>

fun pair_of :: "js_literal \<Rightarrow> (string \<times> string) option" where
  "pair_of (Arr [Str a, Str b]) = Some (a, b)"
| "pair_of _ = None"

definition category_entries :: "js_literal \<Rightarrow> (string \<times> string) list option" where
  "category_entries v = (case v of Arr es \<Rightarrow> those (map pair_of es) | _ \<Rightarrow> None)"

definition table_of :: "js_literal \<Rightarrow> (string \<times> (string \<times> string) list) list option" where
  "table_of t =
     (case t of
        Obj ps \<Rightarrow> those (map (\<lambda>(k, v). map_option (Pair k) (category_entries v)) ps)
      | _ \<Rightarrow> None)"

text \<open>
  The literal that a decoded table stands for: decoding loses nothing, a literal that
  decodes to a table is the literal of that table (lemma \<open>table_of_Some\<close> below).
\<close>

definition literal_of_table :: "(string \<times> (string \<times> string) list) list \<Rightarrow> js_literal" where
  "literal_of_table T =
     Obj (map (\<lambda>(c, es). (c, Arr (map (\<lambda>(i, d). Arr [Str i, Str d]) es))) T)"

text \<open>All identifiers of a decoded table, category after category.\<close>

definition identifiers :: "(string \<times> (string \<times> string) list) list \<Rightarrow> string list" where
  "identifiers T = concat (map (\<lambda>(c, es). map fst es) T)"

text \<open>
  JavaScript compares strings code unit by code unit, a proper prefix being smaller.
  Every character of the file is ASCII, where the code unit is the character's byte.
\<close>

fun str_less :: "string \<Rightarrow> string \<Rightarrow> bool" where
  "str_less [] [] = False"
| "str_less [] (d # t) = True"
| "str_less (c # s) [] = False"
| "str_less (c # s) (d # t) =
     ((of_char c :: nat) < of_char d \<or> (c = d \<and> str_less s t))"

subsection \<open>Evaluating the file\<close>

text \<open>
  At run time a string is a value of its own, while an array or an object lives in the
  heap and is passed by reference. The heap is the list of the objects allocated so
  far, an address is an index into it, and allocation appends.
\<close>

type_synonym addr = nat

datatype js_value = VString string | VRef addr

datatype heap_object =
    HArray "js_value list"
  | HObject "(string \<times> js_value) list"

type_synonym heap = "heap_object list"

text \<open>
  An object literal defines its properties from left to right; defining a key a second
  time replaces the value and keeps the key's place. (The keys of the file are neither
  array indices nor \<open>__proto__\<close>, which JavaScript treats apart.)
\<close>

definition define_properties :: "(string \<times> js_value) list \<Rightarrow> (string \<times> js_value) list" where
  "define_properties kvs = foldl (\<lambda>ps (k, v). AList.update k v ps) [] kvs"

text \<open>
  Evaluating a literal allocates one fresh object for every array and object literal in
  it and returns the value of the literal with the new heap. An object is allocated
  with all its properties once they are evaluated. (JavaScript creates the empty object
  first and defines its properties one by one; no program can tell the difference, as
  nothing refers to the objects of a literal before the literal is evaluated.)
\<close>

fun eval_literal :: "js_literal \<Rightarrow> heap \<Rightarrow> js_value \<times> heap"
and eval_elements :: "js_literal list \<Rightarrow> heap \<Rightarrow> js_value list \<times> heap"
and eval_properties :: "(string \<times> js_literal) list \<Rightarrow> heap \<Rightarrow> (string \<times> js_value) list \<times> heap"
where
  "eval_literal (Str s) h = (VString s, h)"
| "eval_literal (Arr es) h =
     (case eval_elements es h of (vs, h') \<Rightarrow> (VRef (length h'), h' @ [HArray vs]))"
| "eval_literal (Obj ps) h =
     (case eval_properties ps h of
        (kvs, h') \<Rightarrow> (VRef (length h'), h' @ [HObject (define_properties kvs)]))"
| "eval_elements [] h = ([], h)"
| "eval_elements (e # es) h =
     (case eval_literal e h of
        (v, h1) \<Rightarrow> (case eval_elements es h1 of (vs, h2) \<Rightarrow> (v # vs, h2)))"
| "eval_properties [] h = ([], h)"
| "eval_properties ((k, e) # ps) h =
     (case eval_literal e h of
        (v, h1) \<Rightarrow> (case eval_properties ps h1 of (kvs, h2) \<Rightarrow> ((k, v) # kvs, h2)))"

text \<open>
  The outcome of a script is an error or the state it leaves. The file can raise two
  errors of its own: a \<open>ReferenceError\<close> when the name \<open>initSidebarItems\<close> is not
  bound, and a \<open>TypeError\<close> when it is bound to something that is not a function.
  \<open>Thrown v\<close> is a value thrown inside the function that was called.
\<close>

datatype js_error = ReferenceError string | TypeError string | Thrown js_value

text \<open>
  \<open>initSidebarItems\<close> is defined by the documentation viewer, not by this file, so it
  is a parameter: a global name is bound to a function or to something that cannot be
  called. A function takes its arguments and the state, which is the heap and the rest
  \<open>'w\<close> of the page, and either throws a value or returns the new state (the file
  drops the value the call returns).
\<close>

datatype 'w js_global =
    JSFunction "js_value list \<Rightarrow> heap \<times> 'w \<Rightarrow> js_value + heap \<times> 'w"
  | NotCallable

type_synonym 'w globals = "string \<Rightarrow> 'w js_global option"

definition get_global :: "'w globals \<Rightarrow> string \<Rightarrow> js_error + 'w js_global" where
  "get_global env x = (case env x of None \<Rightarrow> Inl (ReferenceError x) | Some g \<Rightarrow> Inr g)"

definition call ::
  "string \<Rightarrow> 'w js_global \<Rightarrow> js_value list \<Rightarrow> heap \<times> 'w \<Rightarrow> js_error + heap \<times> 'w" where
  "call x g args st =
     (case g of
        NotCallable \<Rightarrow> Inl (TypeError x)
      | JSFunction f \<Rightarrow> (case f args st of Inl v \<Rightarrow> Inl (Thrown v) | Inr st' \<Rightarrow> Inr st'))"

text \<open>
  The file: the callee is looked up, the argument is evaluated, the callee is called on
  it, and the statement ends.
\<close>

definition sidebar_items_js :: "'w globals \<Rightarrow> heap \<times> 'w \<Rightarrow> js_error + heap \<times> 'w" where
  "sidebar_items_js env st =
     (case get_global env ''initSidebarItems'' of
        Inl err \<Rightarrow> Inl err
      | Inr g \<Rightarrow>
          (case eval_literal sidebar_items (fst st) of
             (v, h') \<Rightarrow> call ''initSidebarItems'' g [v] (h', snd st)))"

subsection \<open>Observing a run\<close>

text \<open>
  Reading a value back from the heap, down to a given nesting depth: the literal that
  a value denotes in a heap, or \<open>None\<close> when an address is not allocated or the
  nesting is deeper.
\<close>

fun read_back :: "nat \<Rightarrow> heap \<Rightarrow> js_value \<Rightarrow> js_literal option"
and read_elements :: "nat \<Rightarrow> heap \<Rightarrow> js_value list \<Rightarrow> js_literal list option"
and read_properties :: "nat \<Rightarrow> heap \<Rightarrow> (string \<times> js_value) list \<Rightarrow> (string \<times> js_literal) list option"
where
  "read_back n h (VString s) = Some (Str s)"
| "read_back 0 h (VRef a) = None"
| "read_back (Suc n) h (VRef a) =
     (if a < length h then
        (case h ! a of
           HArray vs \<Rightarrow> map_option Arr (read_elements n h vs)
         | HObject kvs \<Rightarrow> map_option Obj (read_properties n h kvs))
      else None)"
| "read_elements n h [] = Some []"
| "read_elements n h (v # vs) =
     (case read_back n h v of
        None \<Rightarrow> None
      | Some e \<Rightarrow> map_option ((#) e) (read_elements n h vs))"
| "read_properties n h [] = Some []"
| "read_properties n h ((k, v) # kvs) =
     (case read_back n h v of
        None \<Rightarrow> None
      | Some e \<Rightarrow> map_option ((#) (k, e)) (read_properties n h kvs))"

text \<open>The nesting depth of a literal, and whether no object literal in it repeats a key.\<close>

fun depth :: "js_literal \<Rightarrow> nat"
and depth_elements :: "js_literal list \<Rightarrow> nat"
and depth_properties :: "(string \<times> js_literal) list \<Rightarrow> nat"
where
  "depth (Str s) = 0"
| "depth (Arr es) = Suc (depth_elements es)"
| "depth (Obj ps) = Suc (depth_properties ps)"
| "depth_elements [] = 0"
| "depth_elements (e # es) = max (depth e) (depth_elements es)"
| "depth_properties [] = 0"
| "depth_properties ((k, e) # ps) = max (depth e) (depth_properties ps)"

fun distinct_keys :: "js_literal \<Rightarrow> bool"
and distinct_keys_elements :: "js_literal list \<Rightarrow> bool"
and distinct_keys_properties :: "(string \<times> js_literal) list \<Rightarrow> bool"
where
  "distinct_keys (Str s) = True"
| "distinct_keys (Arr es) = distinct_keys_elements es"
| "distinct_keys (Obj ps) = (distinct (map fst ps) \<and> distinct_keys_properties ps)"
| "distinct_keys_elements [] = True"
| "distinct_keys_elements (e # es) = (distinct_keys e \<and> distinct_keys_elements es)"
| "distinct_keys_properties [] = True"
| "distinct_keys_properties ((k, e) # ps) = (distinct_keys e \<and> distinct_keys_properties ps)"

text \<open>
  A function that does nothing but record that it was called: the page's state is the
  log of the calls made, each with the name called and what its arguments denote in the
  heap at the time of the call (read to depth 3, the nesting depth of the table).
\<close>

definition recorder :: "string \<Rightarrow> (string \<times> js_literal option list) list js_global" where
  "recorder x = JSFunction (\<lambda>args (h, log). Inr (h, log @ [(x, map (read_back 3 h) args)]))"


text \<open>
  What a later read of the table yields: the value that was passed to the call, read in
  the heap that the file leaves (\<open>None\<close> when the file fails).
\<close>

definition table_after :: "'w globals \<Rightarrow> heap \<Rightarrow> 'w \<Rightarrow> js_literal option" where
  "table_after env h w =
     (case eval_literal sidebar_items h of
        (v, h1) \<Rightarrow>
          (case sidebar_items_js env (h, w) of
             Inl err \<Rightarrow> None
           | Inr st \<Rightarrow> read_back 3 (fst st) v))"

text \<open>
  The objects of \<open>h1\<close> at the addresses from \<open>lo\<close> up to \<open>hi\<close> are still there,
  unchanged, in \<open>h2\<close>; elsewhere the two heaps may differ.
\<close>

definition keeps_objects :: "nat \<Rightarrow> nat \<Rightarrow> heap \<Rightarrow> heap \<Rightarrow> bool" where
  "keeps_objects lo hi h1 h2 = list_all (\<lambda>a. a < length h2 \<and> h2 ! a = h1 ! a) [lo..<hi]"



fun clear_argument :: "js_value list \<Rightarrow> heap \<times> unit \<Rightarrow> js_value + heap \<times> unit" where
  "clear_argument [VRef a] (h, w) = Inr (h[a := HObject []], w)"
| "clear_argument args st = Inr st"

definition clearing_viewer :: "unit globals" where
  "clearing_viewer = [''initSidebarItems'' \<mapsto> JSFunction clear_argument]"

definition write_elsewhere :: "js_value list \<Rightarrow> heap \<times> unit \<Rightarrow> js_value + heap \<times> unit" where
  "write_elsewhere args st = Inr ((fst st)[0 := HObject []] @ [HArray args], snd st)"

definition writing_viewer :: "unit globals" where
  "writing_viewer = [''initSidebarItems'' \<mapsto> JSFunction write_elsewhere]"

section \<open>Properties of the readers\<close>

text \<open>
  A literal decodes to a table exactly when it is the literal of that table: an object
  whose values are arrays of arrays of two strings.
\<close>

lemma pair_of_Some: "pair_of e = Some (i, d) \<Longrightarrow> e = Arr [Str i, Str d]"
  by (induction e rule: pair_of.induct) auto

lemma those_map_inverse:
  "those (map f xs) = Some ys \<Longrightarrow> (\<And>x y. f x = Some y \<Longrightarrow> x = g y) \<Longrightarrow> xs = map g ys"
proof (induction xs arbitrary: ys)
  case Nil
  then show ?case by simp
next
  case (Cons x xs)
  from Cons.prems(1) obtain y zs where y: "f x = Some y" and zs: "those (map f xs) = Some zs"
    and ys: "ys = y # zs"
    by (auto split: option.splits)
  from Cons.IH[OF zs Cons.prems(2)] Cons.prems(2)[OF y] ys show ?case by simp
qed

lemma category_entries_Some:
  "category_entries v = Some es \<Longrightarrow> v = Arr (map (\<lambda>(i, d). Arr [Str i, Str d]) es)"
proof -
  assume a: "category_entries v = Some es"
  then obtain xs where v: "v = Arr xs" and t: "those (map pair_of xs) = Some es"
    by (auto simp: category_entries_def split: js_literal.splits)
  have "xs = map (\<lambda>(i, d). Arr [Str i, Str d]) es"
    by (rule those_map_inverse[OF t]) (auto dest: pair_of_Some)
  with v show ?thesis by simp
qed

lemma table_of_Some: "table_of t = Some T \<Longrightarrow> t = literal_of_table T"
proof -
  assume a: "table_of t = Some T"
  then obtain ps where t: "t = Obj ps"
    and th: "those (map (\<lambda>(k, v). map_option (Pair k) (category_entries v)) ps) = Some T"
    by (auto simp: table_of_def split: js_literal.splits)
  have "ps = map (\<lambda>(c, es). (c, Arr (map (\<lambda>(i, d). Arr [Str i, Str d]) es))) T"
    by (rule those_map_inverse[OF th]) (auto dest: category_entries_Some)
  with t show ?thesis by (simp add: literal_of_table_def)
qed

lemma category_entries_pairs:
  "category_entries (Arr (map (\<lambda>(i, d). Arr [Str i, Str d]) es)) = Some es"
  by (induction es) (auto simp: category_entries_def)

lemma table_of_literal_of_table: "table_of (literal_of_table T) = Some T"
proof -
  have "those (map (\<lambda>(k, v). map_option (Pair k) (category_entries v))
          (map (\<lambda>(c, es). (c, Arr (map (\<lambda>(i, d). Arr [Str i, Str d]) es))) T)) = Some T"
    by (induction T) (auto simp: category_entries_pairs simp del: map_map)
  then show ?thesis by (simp add: table_of_def literal_of_table_def del: map_map)
qed

section \<open>Properties of evaluation\<close>

text \<open>Evaluating a literal only allocates: the heap it returns extends the heap it got.\<close>

lemma eval_extends:
  "\<exists>ext. snd (eval_literal e h) = h @ ext"
  "\<exists>ext. snd (eval_elements es h) = h @ ext"
  "\<exists>ext. snd (eval_properties ps h) = h @ ext"
proof (induction e h and es h and ps h rule: eval_literal_eval_elements_eval_properties.induct)
  case (5 e es h)
  obtain v h1 where e: "eval_literal e h = (v, h1)" by (cases "eval_literal e h")
  obtain vs h2 where es: "eval_elements es h1 = (vs, h2)" by (cases "eval_elements es h1")
  from "5.IH"(1) e obtain x where x: "h1 = h @ x" by auto
  from "5.IH"(2)[OF e[symmetric]] es obtain y where y: "h2 = h1 @ y" by auto
  show ?case using e es x y by simp
next
  case (7 k e ps h)
  obtain v h1 where e: "eval_literal e h = (v, h1)" by (cases "eval_literal e h")
  obtain kvs h2 where ps: "eval_properties ps h1 = (kvs, h2)" by (cases "eval_properties ps h1")
  from "7.IH"(1) e obtain x where x: "h1 = h @ x" by auto
  from "7.IH"(2)[OF e[symmetric]] ps obtain y where y: "h2 = h1 @ y" by auto
  show ?case using e ps x y by simp
qed (auto split: prod.splits)

text \<open>
  What a value denotes does not change when the heap grows or when it is read to a
  greater depth.
\<close>

lemma read_back_mono:
  "read_back n h v = Some e \<Longrightarrow> n \<le> m \<Longrightarrow> read_back m (h @ ext) v = Some e"
  "read_elements n h vs = Some es \<Longrightarrow> n \<le> m \<Longrightarrow> read_elements m (h @ ext) vs = Some es"
  "read_properties n h kvs = Some ps \<Longrightarrow> n \<le> m \<Longrightarrow> read_properties m (h @ ext) kvs = Some ps"
proof (induction n h v and n h vs and n h kvs arbitrary: e m and es m and ps m
    rule: read_back_read_elements_read_properties.induct)
  case (3 n h a)
  from "3.prems"(2) obtain m' where m: "m = Suc m'" and le: "n \<le> m'" by (cases m) auto
  from "3.prems"(1) have a: "a < length h" by (simp split: if_splits)
  show ?case
  proof (cases "h ! a")
    case (HArray vs)
    with "3.prems"(1) a obtain es where "read_elements n h vs = Some es" "e = Arr es" by auto
    with "3.IH"(1)[OF a HArray _ le] HArray a m show ?thesis by (simp add: nth_append)
  next
    case (HObject kvs)
    with "3.prems"(1) a obtain ps where "read_properties n h kvs = Some ps" "e = Obj ps" by auto
    with "3.IH"(2)[OF a HObject _ le] HObject a m show ?thesis by (simp add: nth_append)
  qed
qed (auto split: option.splits)

text \<open>Where the keys are distinct, the properties are defined as they are written.\<close>

lemma update_fresh: "k \<notin> fst ` set ps \<Longrightarrow> AList.update k v ps = ps @ [(k, v)]"
  by (induction ps) auto

lemma define_properties_from:
  "distinct (map fst (acc @ kvs)) \<Longrightarrow>
   foldl (\<lambda>ps (k, v). AList.update k v ps) acc kvs = acc @ kvs"
proof (induction kvs arbitrary: acc)
  case Nil show ?case by simp
next
  case (Cons kv kvs)
  obtain k v where kv: "kv = (k, v)" by (cases kv)
  from Cons.prems kv have "k \<notin> fst ` set acc" by auto
  then have u: "AList.update k v acc = acc @ [(k, v)]" by (rule update_fresh)
  from Cons.prems kv have "distinct (map fst ((acc @ [(k, v)]) @ kvs))" by simp
  from Cons.IH[OF this] u kv show ?case by simp
qed

lemma define_properties_distinct:
  "distinct (map fst kvs) \<Longrightarrow> define_properties kvs = kvs"
  using define_properties_from[of "[]" kvs] by (simp add: define_properties_def)

text \<open>
  The value of a literal denotes the literal, in the heap that the evaluation returns,
  provided no object literal in it repeats a key.
\<close>

lemma eval_properties_keys: "map fst (fst (eval_properties ps h)) = map fst ps"
proof (induction ps arbitrary: h)
  case Nil show ?case by simp
next
  case (Cons p ps)
  obtain k e where p: "p = (k, e)" by (cases p)
  obtain v h1 where e: "eval_literal e h = (v, h1)" by (cases "eval_literal e h")
  obtain kvs h2 where ps: "eval_properties ps h1 = (kvs, h2)"
    by (cases "eval_properties ps h1")
  from Cons.IH[of h1] ps have "map fst kvs = map fst ps" by simp
  with p e ps show ?case by simp
qed

lemma read_back_eval:
  "distinct_keys e \<Longrightarrow> eval_literal e h = (v, h') \<Longrightarrow> read_back (depth e) h' v = Some e"
  "distinct_keys_elements es \<Longrightarrow> eval_elements es h = (vs, h') \<Longrightarrow>
     read_elements (depth_elements es) h' vs = Some es"
  "distinct_keys_properties ps \<Longrightarrow> eval_properties ps h = (kvs, h') \<Longrightarrow>
     read_properties (depth_properties ps) h' kvs = Some ps"
proof (induction e h and es h and ps h arbitrary: v h' and vs h' and kvs h'
    rule: eval_literal_eval_elements_eval_properties.induct)
  case (1 s h)
  then show ?case by auto
next
  case (2 es h)
  obtain vs h1 where es: "eval_elements es h = (vs, h1)" by (cases "eval_elements es h")
  from "2.prems" have "read_elements (depth_elements es) h1 vs = Some es"
    using "2.IH"[OF _ es] by simp
  from read_back_mono(2)[OF this order_refl, of "[HArray vs]"] "2.prems"(2) es
  show ?case by auto
next
  case (3 ps h)
  obtain kvs h1 where ps: "eval_properties ps h = (kvs, h1)" by (cases "eval_properties ps h")
  from "3.prems" have r: "read_properties (depth_properties ps) h1 kvs = Some ps"
    using "3.IH"[OF _ ps] by simp
  from eval_properties_keys[of ps h] ps have "map fst kvs = map fst ps" by simp
  with "3.prems"(1) have d: "define_properties kvs = kvs"
    by (simp add: define_properties_distinct)
  from read_back_mono(3)[OF r order_refl, of "[HObject kvs]"] "3.prems"(2) ps d
  show ?case by auto
next
  case (4 h)
  then show ?case by auto
next
  case (5 e es h)
  obtain v1 h1 where e: "eval_literal e h = (v1, h1)" by (cases "eval_literal e h")
  obtain vs1 h2 where es: "eval_elements es h1 = (vs1, h2)" by (cases "eval_elements es h1")
  from eval_extends(2)[of es h1] es obtain ext where ext: "h2 = h1 @ ext" by auto
  from "5.prems"(1) have r1: "read_back (depth e) h1 v1 = Some e"
    using "5.IH"(1)[OF _ e] by simp
  from "5.prems"(1) have r2: "read_elements (depth_elements es) h2 vs1 = Some es"
    using "5.IH"(2)[OF e[symmetric] _ es] by simp
  have "read_back (max (depth e) (depth_elements es)) h2 v1 = Some e"
    using read_back_mono(1)[OF r1, of "max (depth e) (depth_elements es)" ext] ext by simp
  moreover have "read_elements (max (depth e) (depth_elements es)) h2 vs1 = Some es"
    using read_back_mono(2)[OF r2, of "max (depth e) (depth_elements es)" "[]"] by simp
  ultimately show ?case using "5.prems"(2) e es by auto
next
  case (6 h)
  then show ?case by auto
next
  case (7 k e ps h)
  obtain v1 h1 where e: "eval_literal e h = (v1, h1)" by (cases "eval_literal e h")
  obtain kvs1 h2 where ps: "eval_properties ps h1 = (kvs1, h2)"
    by (cases "eval_properties ps h1")
  from eval_extends(3)[of ps h1] ps obtain ext where ext: "h2 = h1 @ ext" by auto
  from "7.prems"(1) have r1: "read_back (depth e) h1 v1 = Some e"
    using "7.IH"(1)[OF _ e] by simp
  from "7.prems"(1) have r2: "read_properties (depth_properties ps) h2 kvs1 = Some ps"
    using "7.IH"(2)[OF e[symmetric] _ ps] by simp
  have "read_back (max (depth e) (depth_properties ps)) h2 v1 = Some e"
    using read_back_mono(1)[OF r1, of "max (depth e) (depth_properties ps)" ext] ext by simp
  moreover have "read_properties (max (depth e) (depth_properties ps)) h2 kvs1 = Some ps"
    using read_back_mono(3)[OF r2, of "max (depth e) (depth_properties ps)" "[]"] by simp
  ultimately show ?case using "7.prems"(2) e ps by auto
qed

text \<open>
  The value of a literal still denotes the literal in every heap that keeps the objects
  the evaluation allocated, whatever else has changed in it.
\<close>

lemma keeps_objects_iff:
  "keeps_objects lo hi h1 h2 \<longleftrightarrow> (\<forall>a. lo \<le> a \<and> a < hi \<longrightarrow> a < length h2 \<and> h2 ! a = h1 ! a)"
  by (auto simp: keeps_objects_def list_all_iff)

lemma eval_length:
  "length h \<le> length (snd (eval_literal e h))"
  "length h \<le> length (snd (eval_elements es h))"
  "length h \<le> length (snd (eval_properties ps h))"
  using eval_extends(1)[of e h] eval_extends(2)[of es h] eval_extends(3)[of ps h] by auto

lemma read_back_kept:
  "distinct_keys e \<Longrightarrow> eval_literal e h = (v, h1) \<Longrightarrow>
     keeps_objects (length h) (length h1) h1 H \<Longrightarrow> read_back (depth e) H v = Some e"
  "distinct_keys_elements es \<Longrightarrow> eval_elements es h = (vs, h1) \<Longrightarrow>
     keeps_objects (length h) (length h1) h1 H \<Longrightarrow>
     read_elements (depth_elements es) H vs = Some es"
  "distinct_keys_properties ps \<Longrightarrow> eval_properties ps h = (kvs, h1) \<Longrightarrow>
     keeps_objects (length h) (length h1) h1 H \<Longrightarrow>
     read_properties (depth_properties ps) H kvs = Some ps"
proof (induction e h and es h and ps h arbitrary: v h1 and vs h1 and kvs h1
    rule: eval_literal_eval_elements_eval_properties.induct)
  case (1 s h)
  then show ?case by auto
next
  case (2 es h)
  obtain vs h' where es: "eval_elements es h = (vs, h')" by (cases "eval_elements es h")
  from "2.prems"(2) es have v: "v = VRef (length h')" and h1: "h1 = h' @ [HArray vs]" by auto
  from eval_length(2)[of h es] es have le: "length h \<le> length h'" by simp
  from "2.prems"(3) h1 le have top: "length h' < length H" "H ! length h' = HArray vs"
    by (auto simp: keeps_objects_iff)
  from "2.prems"(3) h1 have "keeps_objects (length h) (length h') h' H"
    by (auto simp: keeps_objects_iff nth_append)
  from "2.IH"[OF _ es this] "2.prems"(1)
  have "read_elements (depth_elements es) H vs = Some es" by simp
  with v top show ?case by simp
next
  case (3 ps h)
  obtain kvs h' where ps: "eval_properties ps h = (kvs, h')" by (cases "eval_properties ps h")
  from eval_properties_keys[of ps h] ps have "map fst kvs = map fst ps" by simp
  with "3.prems"(1) have d: "define_properties kvs = kvs"
    by (simp add: define_properties_distinct)
  from "3.prems"(2) ps d have v: "v = VRef (length h')" and h1: "h1 = h' @ [HObject kvs]"
    by auto
  from eval_length(3)[of h ps] ps have le: "length h \<le> length h'" by simp
  from "3.prems"(3) h1 le have top: "length h' < length H" "H ! length h' = HObject kvs"
    by (auto simp: keeps_objects_iff)
  from "3.prems"(3) h1 have "keeps_objects (length h) (length h') h' H"
    by (auto simp: keeps_objects_iff nth_append)
  from "3.IH"[OF _ ps this] "3.prems"(1)
  have "read_properties (depth_properties ps) H kvs = Some ps" by simp
  with v top show ?case by simp
next
  case (4 h)
  then show ?case by auto
next
  case (5 e es h)
  obtain v1 h' where e: "eval_literal e h = (v1, h')" by (cases "eval_literal e h")
  obtain vs1 h'' where es: "eval_elements es h' = (vs1, h'')" by (cases "eval_elements es h'")
  from "5.prems"(2) e es have vs: "vs = v1 # vs1" and h1: "h1 = h''" by auto
  from eval_extends(2)[of es h'] es obtain ext where ext: "h'' = h' @ ext" by auto
  from eval_length(1)[of h e] e have le: "length h \<le> length h'" by simp
  from "5.prems"(3) h1 ext have k1: "keeps_objects (length h) (length h') h' H"
    by (auto simp: keeps_objects_iff nth_append)
  from "5.prems"(3) h1 le have k2: "keeps_objects (length h') (length h'') h'' H"
    by (auto simp: keeps_objects_iff)
  from "5.IH"(1)[OF _ e k1] "5.prems"(1) have r1: "read_back (depth e) H v1 = Some e" by simp
  from "5.IH"(2)[OF e[symmetric] _ es k2] "5.prems"(1)
  have r2: "read_elements (depth_elements es) H vs1 = Some es" by simp
  have "read_back (max (depth e) (depth_elements es)) H v1 = Some e"
    using read_back_mono(1)[OF r1, of "max (depth e) (depth_elements es)" "[]"] by simp
  moreover have "read_elements (max (depth e) (depth_elements es)) H vs1 = Some es"
    using read_back_mono(2)[OF r2, of "max (depth e) (depth_elements es)" "[]"] by simp
  ultimately show ?case using vs by simp
next
  case (6 h)
  then show ?case by auto
next
  case (7 k e ps h)
  obtain v1 h' where e: "eval_literal e h = (v1, h')" by (cases "eval_literal e h")
  obtain kvs1 h'' where ps: "eval_properties ps h' = (kvs1, h'')"
    by (cases "eval_properties ps h'")
  from "7.prems"(2) e ps have kvs: "kvs = (k, v1) # kvs1" and h1: "h1 = h''" by auto
  from eval_extends(3)[of ps h'] ps obtain ext where ext: "h'' = h' @ ext" by auto
  from eval_length(1)[of h e] e have le: "length h \<le> length h'" by simp
  from "7.prems"(3) h1 ext have k1: "keeps_objects (length h) (length h') h' H"
    by (auto simp: keeps_objects_iff nth_append)
  from "7.prems"(3) h1 le have k2: "keeps_objects (length h') (length h'') h'' H"
    by (auto simp: keeps_objects_iff)
  from "7.IH"(1)[OF _ e k1] "7.prems"(1) have r1: "read_back (depth e) H v1 = Some e" by simp
  from "7.IH"(2)[OF e[symmetric] _ ps k2] "7.prems"(1)
  have r2: "read_properties (depth_properties ps) H kvs1 = Some ps" by simp
  have "read_back (max (depth e) (depth_properties ps)) H v1 = Some e"
    using read_back_mono(1)[OF r1, of "max (depth e) (depth_properties ps)" "[]"] by simp
  moreover have "read_properties (max (depth e) (depth_properties ps)) H kvs1 = Some ps"
    using read_back_mono(3)[OF r2, of "max (depth e) (depth_properties ps)" "[]"] by simp
  ultimately show ?case using kvs by simp
qed

section \<open>Properties of the file\<close>

text \<open>The table nests three deep and repeats no key.\<close>

lemma depth_sidebar_items: "depth sidebar_items = 3"
  by (simp add: sidebar_items_def)

lemma distinct_keys_sidebar_items: "distinct_keys sidebar_items"
  by (simp add: sidebar_items_def)

text \<open>The order on strings is the lexicographic order of the characters' codes.\<close>

lemma str_less_lexord:
  "str_less s t \<longleftrightarrow> (s, t) \<in> lexord {(c, d). (of_char c :: nat) < of_char d}"
  by (induction s t rule: str_less.induct) auto

text \<open>
  Building the table from any heap: what was allocated stays, and the value returned
  denotes the table, at any depth from 3 on and in any extension of the new heap.
\<close>

lemma sidebar_items_allocated:
  assumes "eval_literal sidebar_items h = (v, h1)"
  shows "take (length h) h1 = h" and "read_back (3 + n) (h1 @ ext) v = Some sidebar_items"
proof -
  from eval_extends(1)[of sidebar_items h] assms obtain x where "h1 = h @ x" by auto
  then show "take (length h) h1 = h" by simp
  from read_back_eval(1)[OF distinct_keys_sidebar_items assms]
  have "read_back 3 h1 v = Some sidebar_items" by (simp add: depth_sidebar_items)
  from read_back_mono(1)[OF this, of "3 + n" ext]
  show "read_back (3 + n) (h1 @ ext) v = Some sidebar_items" by simp
qed

subsection \<open>The shape of the table\<close>

text \<open>
  Claim C1, as the specification states it: for every category present, every entry is a
  two-element pair (identifier, description) in which both strings are non-empty. The
  file does not satisfy it: the only entry of \<open>attr\<close> is \<open>["contract", ""]\<close>, whose
  description is the empty string.
\<close>

theorem attr_description_is_empty:
  "\<not> (\<exists>T. table_of sidebar_items = Some T \<and>
        list_all (\<lambda>(c, es). list_all (\<lambda>(i, d). i \<noteq> '''' \<and> d \<noteq> '''') es) T)"
  by (simp add: table_of_def sidebar_items_def category_entries_def)

text \<open>
  Claim C1, amended: for every category present, every entry is a two-element pair
  (identifier, description) of strings whose identifier is non-empty; the description is
  non-empty too, except in the entry \<open>contract\<close> of the category \<open>attr\<close>, where it is
  the empty string.
\<close>

theorem entries_are_pairs_with_identifier:
  "\<exists>T. table_of sidebar_items = Some T \<and>
     list_all (\<lambda>(c, es). list_all (\<lambda>(i, d). i \<noteq> '''' \<and>
       (if (c, i) = (''attr'', ''contract'') then d = '''' else d \<noteq> '''')) es) T"
  by (simp add: table_of_def sidebar_items_def category_entries_def)

text \<open>
  Claim C2: in every category of the table, the identifiers (the first elements of the
  pairs) are pairwise distinct.
\<close>

theorem identifiers_distinct_in_category:
  "\<exists>T. table_of sidebar_items = Some T \<and> list_all (\<lambda>(c, es). distinct (map fst es)) T"
  by (simp add: table_of_def sidebar_items_def category_entries_def)

text \<open>
  Claim C3, as the specification states it: the table is a mapping from exactly four
  fixed category keys to sequences of two-element pairs. The file has five keys.
\<close>

theorem table_has_not_four_keys:
  "\<not> (\<exists>T. table_of sidebar_items = Some T \<and> distinct (map fst T) \<and> length T = 4)"
  by (simp add: table_of_def sidebar_items_def category_entries_def)

text \<open>
  Claim C3, amended: the table is a mapping from exactly five fixed category keys,
  \<open>attr\<close>, \<open>enum\<close>, \<open>struct\<close>, \<open>trait\<close> and \<open>type\<close> in this order, to ordered
  sequences of two-element (name, description) pairs.
\<close>

theorem table_has_five_keys:
  "\<exists>T. table_of sidebar_items = Some T \<and> sidebar_items = literal_of_table T \<and>
     distinct (map fst T) \<and> length T = 5 \<and>
     map fst T = [''attr'', ''enum'', ''struct'', ''trait'', ''type'']"
  by (simp add: table_of_def sidebar_items_def category_entries_def literal_of_table_def)

text \<open>
  Claim C4: every category key of the table is one of the five names \<open>attr\<close>,
  \<open>enum\<close>, \<open>struct\<close>, \<open>trait\<close>, \<open>type\<close>, and each key maps to a list of
  (identifier, description) pairs.
\<close>

theorem category_keys_among_five_names:
  "\<exists>T. table_of sidebar_items = Some T \<and> sidebar_items = literal_of_table T \<and>
     list_all (\<lambda>(c, es). c \<in> {''attr'', ''enum'', ''struct'', ''trait'', ''type''}) T"
  by (simp add: table_of_def sidebar_items_def category_entries_def literal_of_table_def)

text \<open>
  Claim C8: within every category, the entries are sorted in strictly ascending order
  of their identifiers, compared as ASCII strings; so \<open>DispatchList\<close> comes before
  \<open>Dispatcher\<close> and \<open>DispatchResult\<close> before \<open>DispatchableFn\<close>, an upper case
  letter being smaller than a lower case one.
\<close>

theorem entries_strictly_ascending:
  "\<exists>T. table_of sidebar_items = Some T \<and>
     list_all (\<lambda>(c, es). sorted_wrt str_less (map fst es)) T \<and>
     str_less ''DispatchList'' ''Dispatcher'' \<and>
     str_less ''DispatchResult'' ''DispatchableFn''"
  by (simp add: table_of_def sidebar_items_def category_entries_def)

text \<open>
  Claim C9: the identifiers are pairwise distinct across the whole table, so no name
  appears in two categories.
\<close>

theorem identifiers_distinct_in_table:
  "\<exists>T. table_of sidebar_items = Some T \<and> distinct (identifiers T)"
  by (simp add: table_of_def sidebar_items_def category_entries_def identifiers_def)

text \<open>
  Claim C10: every identifier of the table is a non-empty string, while a description
  may be empty, as it is in \<open>["contract", ""]\<close>, the only entry of \<open>attr\<close>.
\<close>

theorem identifier_nonempty_description_any:
  "\<exists>T. table_of sidebar_items = Some T \<and>
     list_all (\<lambda>(c, es). list_all (\<lambda>(i, d). i \<noteq> '''') es) T \<and>
     map_of T ''attr'' = Some [(''contract'', '''')]"
  by (simp add: table_of_def sidebar_items_def category_entries_def)

subsection \<open>The run of the file\<close>

text \<open>
  Claim C5: all the file does is call \<open>initSidebarItems\<close> once, on one fixed table.
  From any heap \<open>h\<close> and any page \<open>w\<close>, and whatever the globals are: the argument
  denotes \<open>sidebar_items\<close>; the outcome of the file is the outcome of that one call (or
  the \<open>ReferenceError\<close> of a name that is not bound); no other global is looked at;
  and where every global is a function that only records its call, the log of the run
  holds exactly one call, of \<open>initSidebarItems\<close>, on one argument, the table.
\<close>

theorem file_is_one_call:
  "\<exists>v h1. eval_literal sidebar_items h = (v, h1) \<and>
     read_back 3 h1 v = Some sidebar_items \<and>
     sidebar_items_js env (h, w) =
       (case env ''initSidebarItems'' of
          None \<Rightarrow> Inl (ReferenceError ''initSidebarItems'')
        | Some g \<Rightarrow> call ''initSidebarItems'' g [v] (h1, w)) \<and>
     sidebar_items_js env (h, w) = sidebar_items_js (env |` {''initSidebarItems''}) (h, w) \<and>
     sidebar_items_js (\<lambda>x. Some (recorder x)) (h, []) =
       Inr (h1, [(''initSidebarItems'', [Some sidebar_items])])"
proof -
  obtain v h1 where e: "eval_literal sidebar_items h = (v, h1)"
    by (cases "eval_literal sidebar_items h")
  from sidebar_items_allocated(2)[OF e, of 0 "[]"]
  have r: "read_back 3 h1 v = Some sidebar_items" by simp
  have "sidebar_items_js env (h, w) =
       (case env ''initSidebarItems'' of
          None \<Rightarrow> Inl (ReferenceError ''initSidebarItems'')
        | Some g \<Rightarrow> call ''initSidebarItems'' g [v] (h1, w))"
    by (simp add: sidebar_items_js_def get_global_def e split: option.splits)
  moreover have "sidebar_items_js env (h, w) =
      sidebar_items_js (env |` {''initSidebarItems''}) (h, w)"
    by (simp add: sidebar_items_js_def get_global_def)
  moreover have "sidebar_items_js (\<lambda>x. Some (recorder x)) (h, []) =
       Inr (h1, [(''initSidebarItems'', [Some sidebar_items])])"
    by (simp add: sidebar_items_js_def get_global_def e call_def recorder_def r)
  ultimately show ?thesis using e r by simp
qed

text \<open>
  The table still reads as written in every heap that keeps its objects, and its value
  is a reference to the last object allocated.
\<close>

lemma sidebar_items_kept:
  assumes "eval_literal sidebar_items h = (v, h1)"
    and "keeps_objects (length h) (length h1) h1 H"
  shows "read_back 3 H v = Some sidebar_items"
  using read_back_kept(1)[OF distinct_keys_sidebar_items assms]
  by (simp add: depth_sidebar_items)

lemma eval_object_ref:
  "eval_literal (Obj ps) h = (v, h1) \<Longrightarrow> v = VRef (length h1 - 1) \<and> 0 < length h1"
  by (auto split: prod.splits)

text \<open>
  Claim C6, as the specification states it: after the call the table is never mutated,
  so every later read of it yields the same value. The file passes the table by
  reference and does not freeze it: where \<open>initSidebarItems\<close> removes the properties
  of its argument, the file returns and a read of the table in the state it leaves
  yields the empty object, not the table.
\<close>

theorem callee_can_empty_table:
  "clearing_viewer ''initSidebarItems'' = Some (JSFunction clear_argument) \<and>
   table_after clearing_viewer [] () = Some (Obj []) \<and>
   table_after clearing_viewer [] () \<noteq> Some sidebar_items"
proof -
  obtain v h1 where e: "eval_literal sidebar_items [] = (v, h1)"
    by (cases "eval_literal sidebar_items []")
  obtain ps where o: "sidebar_items = Obj ps" by (simp add: sidebar_items_def)
  from eval_object_ref[of ps "[]" v h1] e o
  have v: "v = VRef (length h1 - 1)" and l: "0 < length h1" by auto
  have "sidebar_items_js clearing_viewer ([], ()) = Inr (h1[length h1 - 1 := HObject []], ())"
    by (simp add: sidebar_items_js_def get_global_def call_def clearing_viewer_def e v)
  with e v l have t: "table_after clearing_viewer [] () = Some (Obj [])"
    by (simp add: table_after_def numeral_3_eq_3)
  have "Obj [] \<noteq> sidebar_items" by (simp add: sidebar_items_def)
  with t show ?thesis by (simp add: clearing_viewer_def)
qed

text \<open>
  Claim C6, amended: the file itself never changes the table. Building the table leaves
  every object that was in the heap as it was, and the value passed to the call denotes
  the table; after the call the file does nothing more, so the state it leaves is the
  state in which \<open>initSidebarItems\<close> returns, and a later read of the table yields
  what the table denotes in that state. The read yields the table as written whenever
  \<open>initSidebarItems\<close> has left the table's objects unchanged, whatever else it has
  written or allocated.
\<close>

theorem table_kept_unless_callee_writes:
  "\<exists>v h1. eval_literal sidebar_items h = (v, h1) \<and>
     take (length h) h1 = h \<and>
     read_back 3 h1 v = Some sidebar_items \<and>
     (\<forall>f h2 w2. env ''initSidebarItems'' = Some (JSFunction f) \<and>
          f [v] (h1, w) = Inr (h2, w2) \<longrightarrow>
        sidebar_items_js env (h, w) = Inr (h2, w2) \<and>
        table_after env h w = read_back 3 h2 v \<and>
        (keeps_objects (length h) (length h1) h1 h2 \<longrightarrow>
           table_after env h w = Some sidebar_items))"
proof -
  obtain v h1 where e: "eval_literal sidebar_items h = (v, h1)"
    by (cases "eval_literal sidebar_items h")
  have run: "sidebar_items_js env (h, w) = Inr (h2, w2)"
    if "env ''initSidebarItems'' = Some (JSFunction f)" "f [v] (h1, w) = Inr (h2, w2)"
    for f h2 w2
    using that by (simp add: sidebar_items_js_def get_global_def call_def e)
  have after: "table_after env h w = read_back 3 h2 v"
    if "env ''initSidebarItems'' = Some (JSFunction f)" "f [v] (h1, w) = Inr (h2, w2)"
    for f h2 w2
    using run[OF that] by (simp add: table_after_def e)
  have kept: "table_after env h w = Some sidebar_items"
    if "env ''initSidebarItems'' = Some (JSFunction f)" "f [v] (h1, w) = Inr (h2, w2)"
      "keeps_objects (length h) (length h1) h1 h2"
    for f h2 w2
    using after[OF that(1,2)] sidebar_items_kept[OF e that(3)] by simp
  from sidebar_items_allocated(2)[OF e, of 0 "[]"]
  have rd: "read_back 3 h1 v = Some sidebar_items" by simp
  show ?thesis using e sidebar_items_allocated(1)[OF e] rd run after kept by blast
qed

text \<open>
  The hypotheses hold for a function that overwrites an object the page had before and
  allocates a new one: the file returns the heap so changed, the objects of the table
  are kept, and the table reads as written.
\<close>

theorem table_kept_unless_callee_writes_witness:
  "\<exists>v h1. eval_literal sidebar_items [HArray []] = (v, h1) \<and>
     writing_viewer ''initSidebarItems'' = Some (JSFunction write_elsewhere) \<and>
     write_elsewhere [v] (h1, ()) = Inr (h1[0 := HObject []] @ [HArray [v]], ()) \<and>
     keeps_objects 1 (length h1) h1 (h1[0 := HObject []] @ [HArray [v]]) \<and>
     sidebar_items_js writing_viewer ([HArray []], ()) =
       Inr (h1[0 := HObject []] @ [HArray [v]], ()) \<and>
     table_after writing_viewer [HArray []] () = Some sidebar_items"
proof -
  from table_kept_unless_callee_writes[of "[HArray []]" writing_viewer "()"]
  obtain v h1 where e: "eval_literal sidebar_items [HArray []] = (v, h1)"
    and run: "\<forall>f h2 w2. writing_viewer ''initSidebarItems'' = Some (JSFunction f) \<and>
          f [v] (h1, ()) = Inr (h2, w2) \<longrightarrow>
        sidebar_items_js writing_viewer ([HArray []], ()) = Inr (h2, w2) \<and>
        table_after writing_viewer [HArray []] () = read_back 3 h2 v \<and>
        (keeps_objects (length [HArray []]) (length h1) h1 h2 \<longrightarrow>
           table_after writing_viewer [HArray []] () = Some sidebar_items)"
    by blast
  have b: "writing_viewer ''initSidebarItems'' = Some (JSFunction write_elsewhere)"
    by (simp add: writing_viewer_def)
  have c: "write_elsewhere [v] (h1, ()) = Inr (h1[0 := HObject []] @ [HArray [v]], ())"
    by (simp add: write_elsewhere_def)
  have k: "keeps_objects 1 (length h1) h1 (h1[0 := HObject []] @ [HArray [v]])"
    by (auto simp: keeps_objects_iff nth_append)
  from run b c have "sidebar_items_js writing_viewer ([HArray []], ()) =
       Inr (h1[0 := HObject []] @ [HArray [v]], ()) \<and>
     (keeps_objects (length [HArray []]) (length h1) h1 (h1[0 := HObject []] @ [HArray [v]]) \<longrightarrow>
           table_after writing_viewer [HArray []] () = Some sidebar_items)"
    by blast
  with k e b c show ?thesis by simp
qed




end
